theory Spec2Isabelle
  imports Complex_Main "HOL-Library.AList"
begin

section \<open>The simulated brokerage ledger of \<open>src/brokers\<close>\<close>

text \<open>
  A shallow embedding of \<open>src/brokers/models.py\<close> and of the class \<open>MockBroker\<close> of
  \<open>src/brokers/mock.py\<close>. Conventions of the embedding:
  \<^item> a Python \<open>float\<close> is a \<open>real\<close>, and the operations on it are exact in the
    definitions of the broker; \<open>x / y\<close> with \<open>y = 0\<close> raises \<open>ZeroDivisionError\<close>, and
    every division of the source is written with that check unless a guard of the
    source excludes it. Every theorem that runs these definitions on concrete numbers
    uses numbers on which binary64 arithmetic gives the same results. Where rounding decides
    a property, \<open>_execute_long_buy\<close> is taken with every operation rounded to
    binary64 (\<open>execute_long_buy_fl\<close>, in the subsection on double precision);
    infinities and NaN are not modelled;
  \<^item> a Python \<open>int\<close> is an \<open>int\<close>;
  \<^item> an exception is the \<open>Inl\<close> of a sum type;
  \<^item> a method that mutates \<open>self\<close> takes the broker and returns the new one;
  \<^item> \<open>uuid4()\<close> and \<open>datetime.now()\<close> are inputs of the method that calls them: the
    identifier \<open>oid\<close> and the clock reading \<open>now\<close>;
  \<^item> an f-string message is a constructor of \<open>message\<close> holding the formatted values.
\<close>

subsection \<open>models.py\<close>

datatype OrderSide = BUY | SELL

datatype OrderType = MARKET | LIMIT | STOP | STOP_LIMIT

datatype OrderStatus = PENDING | SUBMITTED | PARTIAL | FILLED | CANCELLED | REJECTED | EXPIRED

datatype PositionSide = LONG | SHORT

type_synonym timestamp = nat

datatype message =
    NoPriceAvailable string
  | SlippageExceeds real real
  | LimitPriceRequired
  | InsufficientCash string real real
  | InsufficientMargin string real
  | NoQuantityFilled
  | PartialFill int int
  | OrderPendingLimit
  | Text string

datatype error =
    ZeroDivisionError
  | InsufficientFundsError message
  | ValueError string
  | KeyError string
  | JSONDecodeError

record Order =
  ticker :: string
  side :: OrderSide
  quantity :: int
  order_type :: OrderType
  limit_price :: "real option"
  stop_price :: "real option"
  position_side :: PositionSide
  client_order_id :: string
  time_in_force :: string

text \<open>\<open>Order.__post_init__\<close>: the checks run when an order is constructed.\<close>

definition post_init :: "Order \<Rightarrow> error + Order" where
  "post_init ord =
     (if order_type ord = LIMIT \<and> limit_price ord = None
        then Inl (ValueError ''limit_price is required for LIMIT orders'')
      else if order_type ord = STOP \<and> stop_price ord = None
        then Inl (ValueError ''stop_price is required for STOP orders'')
      else if quantity ord \<le> 0
        then Inl (ValueError ''quantity must be positive'')
      else Inr ord)"

record OrderResult =
  order_id :: string
  r_client_order_id :: string
  r_ticker :: string
  r_side :: OrderSide
  quantity_requested :: int
  quantity_filled :: int
  status :: OrderStatus
  average_price :: "real option"
  message :: "message option"
  submitted_at :: timestamp
  filled_at :: "timestamp option"

definition is_filled :: "OrderResult \<Rightarrow> bool" where
  "is_filled r \<longleftrightarrow> status r = FILLED"

definition is_terminal :: "OrderResult \<Rightarrow> bool" where
  "is_terminal r \<longleftrightarrow> status r \<in> {FILLED, CANCELLED, REJECTED, EXPIRED}"

record Position =
  p_ticker :: string
  p_quantity :: int
  p_side :: PositionSide
  average_cost :: real
  current_price :: real
  market_value :: real
  unrealized_pnl :: real
  realized_pnl :: real

text \<open>The constructor call \<open>Position(ticker, quantity, side, average_cost)\<close> with the
  dataclass defaults for the other fields.\<close>

definition new_position :: "string \<Rightarrow> int \<Rightarrow> PositionSide \<Rightarrow> real \<Rightarrow> Position" where
  "new_position tkr qty sd avg =
     \<lparr>p_ticker = tkr, p_quantity = qty, p_side = sd, average_cost = avg,
      current_price = 0, market_value = 0, unrealized_pnl = 0, realized_pnl = 0\<rparr>"

definition update_market_data :: "real \<Rightarrow> Position \<Rightarrow> Position" where
  "update_market_data price p =
     (let p1 = p\<lparr>current_price := price\<rparr>;
          p2 = p1\<lparr>market_value := real_of_int \<bar>p_quantity p1\<bar> * price\<rparr>
      in if p_side p2 = LONG
         then p2\<lparr>unrealized_pnl := (price - average_cost p2) * real_of_int (p_quantity p2)\<rparr>
         else p2\<lparr>unrealized_pnl := (average_cost p2 - price) * real_of_int \<bar>p_quantity p2\<bar>\<rparr>)"

record AccountInfo =
  account_id :: string
  a_cash :: real
  buying_power :: real
  equity :: real
  a_margin_used :: real
  margin_available :: real
  day_trade_count :: int
  is_paper :: bool

subsection \<open>mock.py: the broker and its price lookup\<close>

text \<open>
  The fields of \<open>MockBroker\<close> that the ledger operations read or write. A dict whose
  values are summed or listed (\<open>_positions\<close>) is an association list in insertion
  order with unique keys: \<open>AList.update\<close> overwrites in place or appends, as a Python
  assignment \<open>d[k] = v\<close> does, and it also stands for a field assignment to the object
  stored under \<open>k\<close>. \<open>_orders\<close> and \<open>_prices\<close> are only looked up and stored into.
\<close>

record MockBroker =
  initial_cash :: real
  cash :: real
  margin_requirement :: real
  margin_used :: real
  slippage :: real
  max_slippage :: real
  price_provider :: "(string \<Rightarrow> real option) option"
  positions :: "(string \<times> Position) list"
  orders :: "string \<rightharpoonup> OrderResult"
  prices :: "string \<rightharpoonup> real"

definition init :: "real \<Rightarrow> real \<Rightarrow> real \<Rightarrow> real \<Rightarrow> (string \<Rightarrow> real option) option \<Rightarrow> MockBroker"
  where
  "init initial margin slip max_slip provider =
     \<lparr>initial_cash = initial, cash = initial, margin_requirement = margin, margin_used = 0,
      slippage = slip, max_slippage = max_slip, price_provider = provider,
      positions = [], orders = Map.empty, prices = Map.empty\<rparr>"

definition set_price :: "string \<Rightarrow> real \<Rightarrow> MockBroker \<Rightarrow> MockBroker" where
  "set_price tkr price s = s\<lparr>prices := (prices s)(tkr \<mapsto> price)\<rparr>"

definition get_current_price :: "MockBroker \<Rightarrow> string \<Rightarrow> real option" where
  "get_current_price s tkr =
     (case prices s tkr of
        Some p \<Rightarrow> Some p
      | None \<Rightarrow> (case price_provider s of Some f \<Rightarrow> f tkr | None \<Rightarrow> None))"

definition apply_slippage :: "MockBroker \<Rightarrow> real \<Rightarrow> OrderSide \<Rightarrow> real" where
  "apply_slippage s price sd =
     (if slippage s = 0 then price
      else if sd = BUY then price * (1 + slippage s)
      else price * (1 - slippage s))"

text \<open>\<open>int(x)\<close> on a float truncates toward zero.\<close>

definition py_int :: "real \<Rightarrow> int" where
  "py_int x = (if 0 \<le> x then \<lfloor>x\<rfloor> else \<lceil>x\<rceil>)"

subsection \<open>mock.py: the four execution primitives\<close>

definition get_or_create_position ::
  "string \<Rightarrow> PositionSide \<Rightarrow> MockBroker \<Rightarrow> Position \<times> MockBroker" where
  "get_or_create_position tkr sd s =
     (case map_of (positions s) tkr of
        None \<Rightarrow>
          (let p = new_position tkr 0 sd 0
           in (p, s\<lparr>positions := AList.update tkr p (positions s)\<rparr>))
      | Some p \<Rightarrow> (p, s))"

text \<open>
  Each primitive returns the filled quantity and the new broker, or the exception it
  raises. Both \<open>raise\<close> statements come before the first assignment to \<open>self\<close>, so the
  broker at a raise is the broker of the call.
\<close>

definition execute_long_buy ::
  "string \<Rightarrow> int \<Rightarrow> real \<Rightarrow> MockBroker \<Rightarrow> error + (int \<times> MockBroker)" where
  "execute_long_buy tkr qty0 price s =
     (let cost0 = real_of_int qty0 * price;
          clamped =
            (if cost0 > cash s
             then (let max_qty = (if price > 0 then py_int (cash s / price) else 0)
                   in if max_qty = 0
                      then Inl (InsufficientFundsError (InsufficientCash tkr cost0 (cash s)))
                      else Inr (max_qty, real_of_int max_qty * price))
             else Inr (qty0, cost0))
      in case clamped of
           Inl e \<Rightarrow> Inl e
         | Inr (qty, cost) \<Rightarrow>
             (let (position, s1) = get_or_create_position tkr LONG s;
                  old_qty = p_quantity position;
                  old_cost = average_cost position;
                  new_qty = old_qty + qty;
                  position1 =
                    (if new_qty > 0
                     then position\<lparr>average_cost :=
                            (old_cost * real_of_int old_qty + price * real_of_int qty)
                              / real_of_int new_qty\<rparr>
                     else position);
                  position2 = position1\<lparr>p_quantity := new_qty\<rparr>;
                  s2 = s1\<lparr>positions := AList.update tkr position2 (positions s1)\<rparr>
              in Inr (qty, s2\<lparr>cash := cash s2 - cost\<rparr>)))"

definition execute_long_sell ::
  "string \<Rightarrow> int \<Rightarrow> real \<Rightarrow> MockBroker \<Rightarrow> error + (int \<times> MockBroker)" where
  "execute_long_sell tkr qty0 price s =
     (case map_of (positions s) tkr of
        None \<Rightarrow> Inr (0, s)
      | Some position \<Rightarrow>
          if p_side position \<noteq> LONG then Inr (0, s)
          else
            (let qty = min qty0 (p_quantity position)
             in if qty \<le> 0 then Inr (0, s)
                else
                  (let pnl = (price - average_cost position) * real_of_int qty;
                       position1 = position\<lparr>realized_pnl := realized_pnl position + pnl\<rparr>;
                       position2 = position1\<lparr>p_quantity := p_quantity position1 - qty\<rparr>;
                       s1 = s\<lparr>positions := AList.update tkr position2 (positions s)\<rparr>;
                       s2 = s1\<lparr>cash := cash s1 + real_of_int qty * price\<rparr>
                   in Inr (qty,
                        if p_quantity position2 = 0
                        then s2\<lparr>positions := AList.delete tkr (positions s2)\<rparr>
                        else s2))))"

definition execute_short_open ::
  "string \<Rightarrow> int \<Rightarrow> real \<Rightarrow> MockBroker \<Rightarrow> error + (int \<times> MockBroker)" where
  "execute_short_open tkr qty0 price s =
     (let proceeds0 = price * real_of_int qty0;
          margin_required0 = proceeds0 * margin_requirement s;
          clamped =
            (if margin_required0 > cash s
             then if price * margin_requirement s = 0 then Inl ZeroDivisionError
                  else
                    (let max_qty = py_int (cash s / (price * margin_requirement s))
                     in if max_qty = 0
                        then Inl (InsufficientFundsError (InsufficientMargin tkr margin_required0))
                        else Inr (max_qty, price * real_of_int max_qty,
                                  price * real_of_int max_qty * margin_requirement s))
             else Inr (qty0, proceeds0, margin_required0))
      in case clamped of
           Inl e \<Rightarrow> Inl e
         | Inr (qty, proceeds, margin_required) \<Rightarrow>
             (let (position, s1) = get_or_create_position tkr SHORT s;
                  old_qty = \<bar>p_quantity position\<bar>;
                  old_cost = average_cost position;
                  new_qty = old_qty + qty;
                  position1 =
                    (if new_qty > 0
                     then position\<lparr>average_cost :=
                            (old_cost * real_of_int old_qty + price * real_of_int qty)
                              / real_of_int new_qty\<rparr>
                     else position);
                  position2 = position1\<lparr>p_quantity := - new_qty\<rparr>;
                  s2 = s1\<lparr>positions := AList.update tkr position2 (positions s1)\<rparr>;
                  s3 = s2\<lparr>margin_used := margin_used s2 + margin_required\<rparr>
              in Inr (qty, s3\<lparr>cash := cash s3 + (proceeds - margin_required)\<rparr>)))"

text \<open>
  In \<open>_execute_short_cover\<close> the first value of \<open>margin_to_release\<close> (with \<open>portion\<close>) is
  overwritten before it is read; its two divisors are \<open>short_qty\<close> and
  \<open>max(1, short_qty)\<close>, both positive where they are evaluated, so it raises nothing
  and is left out.
\<close>

definition execute_short_cover ::
  "string \<Rightarrow> int \<Rightarrow> real \<Rightarrow> MockBroker \<Rightarrow> error + (int \<times> MockBroker)" where
  "execute_short_cover tkr qty0 price s =
     (case map_of (positions s) tkr of
        None \<Rightarrow> Inr (0, s)
      | Some position \<Rightarrow>
          if p_side position \<noteq> SHORT then Inr (0, s)
          else
            (let short_qty = \<bar>p_quantity position\<bar>;
                 qty = min qty0 short_qty
             in if qty \<le> 0 then Inr (0, s)
                else
                  (let cover_cost = real_of_int qty * price;
                       pnl = (average_cost position - price) * real_of_int qty;
                       position1 = position\<lparr>realized_pnl := realized_pnl position + pnl\<rparr>;
                       margin_to_release = cover_cost * margin_requirement s;
                       position2 = position1\<lparr>p_quantity := p_quantity position1 + qty\<rparr>;
                       s1 = s\<lparr>positions := AList.update tkr position2 (positions s)\<rparr>;
                       s2 = s1\<lparr>margin_used := margin_used s1 - margin_to_release\<rparr>;
                       s3 = s2\<lparr>cash := cash s2 + (margin_to_release - cover_cost)\<rparr>
                   in Inr (qty,
                        if p_quantity position2 = 0
                        then s3\<lparr>positions := AList.delete tkr (positions s3)\<rparr>
                        else s3))))"

subsection \<open>mock.py: order results\<close>

definition create_filled_result ::
  "string \<Rightarrow> timestamp \<Rightarrow> Order \<Rightarrow> int \<Rightarrow> real \<Rightarrow> OrderResult" where
  "create_filled_result oid now ord qty price =
     \<lparr>order_id = oid, r_client_order_id = client_order_id ord, r_ticker = ticker ord,
      r_side = side ord, quantity_requested = quantity ord, quantity_filled = qty,
      status = FILLED, average_price = Some price, message = None,
      submitted_at = now, filled_at = Some now\<rparr>"

definition create_partial_result ::
  "string \<Rightarrow> timestamp \<Rightarrow> Order \<Rightarrow> int \<Rightarrow> real \<Rightarrow> OrderResult" where
  "create_partial_result oid now ord qty price =
     \<lparr>order_id = oid, r_client_order_id = client_order_id ord, r_ticker = ticker ord,
      r_side = side ord, quantity_requested = quantity ord, quantity_filled = qty,
      status = PARTIAL, average_price = Some price,
      message = Some (PartialFill qty (quantity ord)),
      submitted_at = now, filled_at = None\<rparr>"

definition create_rejected_result ::
  "string \<Rightarrow> timestamp \<Rightarrow> Order \<Rightarrow> message \<Rightarrow> OrderResult" where
  "create_rejected_result oid now ord msg =
     \<lparr>order_id = oid, r_client_order_id = client_order_id ord, r_ticker = ticker ord,
      r_side = side ord, quantity_requested = quantity ord, quantity_filled = 0,
      status = REJECTED, average_price = None, message = Some msg,
      submitted_at = now, filled_at = None\<rparr>"

text \<open>\<open>_create_pending_result\<close> is the one constructor that stores its result itself.\<close>

definition create_pending_result ::
  "string \<Rightarrow> timestamp \<Rightarrow> Order \<Rightarrow> MockBroker \<Rightarrow> OrderResult \<times> MockBroker" where
  "create_pending_result oid now ord s =
     (let result =
            \<lparr>order_id = oid, r_client_order_id = client_order_id ord, r_ticker = ticker ord,
             r_side = side ord, quantity_requested = quantity ord, quantity_filled = 0,
             status = PENDING, average_price = None, message = Some OrderPendingLimit,
             submitted_at = now, filled_at = None\<rparr>
      in (result, s\<lparr>orders := (orders s)(order_id result \<mapsto> result)\<rparr>))"

subsection \<open>mock.py: \<open>submit_order\<close>\<close>

text \<open>
  \<open>execute_order\<close> is the \<open>try\<close> block of \<open>submit_order\<close>: the dispatch on
  \<open>(position_side, side)\<close>.
\<close>

definition execute_order :: "Order \<Rightarrow> real \<Rightarrow> MockBroker \<Rightarrow> error + (int \<times> MockBroker)" where
  "execute_order ord exec_price s =
     (if position_side ord = LONG
      then if side ord = BUY
           then execute_long_buy (ticker ord) (quantity ord) exec_price s
           else execute_long_sell (ticker ord) (quantity ord) exec_price s
      else if side ord = SELL
           then execute_short_open (ticker ord) (quantity ord) exec_price s
           else execute_short_cover (ticker ord) (quantity ord) exec_price s)"

text \<open>
  \<open>execute_and_record\<close> is \<open>submit_order\<close> from the comment \<open>Execute the order based on
  position side\<close> to its last line: the \<open>try\<close> block, its \<open>except
  InsufficientFundsError\<close> clause (which returns without storing), the choice of the
  result, the store into \<open>_orders\<close> and the return. Any other exception propagates.
\<close>

definition execute_and_record ::
  "string \<Rightarrow> timestamp \<Rightarrow> Order \<Rightarrow> real \<Rightarrow> MockBroker \<Rightarrow> error + (OrderResult \<times> MockBroker)"
  where
  "execute_and_record oid now ord exec_price s =
     (case execute_order ord exec_price s of
        Inl (InsufficientFundsError msg) \<Rightarrow> Inr (create_rejected_result oid now ord msg, s)
      | Inl e \<Rightarrow> Inl e
      | Inr (filled_qty, s1) \<Rightarrow>
          (let result =
                 (if filled_qty = 0 then create_rejected_result oid now ord NoQuantityFilled
                  else if filled_qty < quantity ord
                    then create_partial_result oid now ord filled_qty exec_price
                  else create_filled_result oid now ord filled_qty exec_price)
           in Inr (result, s1\<lparr>orders := (orders s1)(order_id result \<mapsto> result)\<rparr>)))"

definition submit_order ::
  "string \<Rightarrow> timestamp \<Rightarrow> Order \<Rightarrow> MockBroker \<Rightarrow> error + (OrderResult \<times> MockBroker)" where
  "submit_order oid now ord s =
     (case get_current_price s (ticker ord) of
        None \<Rightarrow> Inr (create_rejected_result oid now ord (NoPriceAvailable (ticker ord)), s)
      | Some current \<Rightarrow>
          if order_type ord = MARKET then
            (let exec_price = apply_slippage s current (side ord)
             in if max_slippage s > 0
                then if current = 0 then Inl ZeroDivisionError
                     else
                       (let actual_slippage = \<bar>exec_price - current\<bar> / current
                        in if actual_slippage > max_slippage s
                           then Inr (create_rejected_result oid now ord
                                       (SlippageExceeds actual_slippage (max_slippage s)), s)
                           else execute_and_record oid now ord exec_price s)
                else execute_and_record oid now ord exec_price s)
          else if order_type ord = LIMIT then
            (case limit_price ord of
               None \<Rightarrow> Inr (create_rejected_result oid now ord LimitPriceRequired, s)
             | Some limit \<Rightarrow>
                 if side ord = BUY \<and> current > limit
                   then Inr (create_pending_result oid now ord s)
                 else if side ord = SELL \<and> current < limit
                   then Inr (create_pending_result oid now ord s)
                 else execute_and_record oid now ord limit s)
          else execute_and_record oid now ord (apply_slippage s current (side ord)) s)"

subsection \<open>mock.py: queries and cancellation\<close>

definition cancel_order :: "string \<Rightarrow> MockBroker \<Rightarrow> bool \<times> MockBroker" where
  "cancel_order oid s =
     (case orders s oid of
        None \<Rightarrow> (False, s)
      | Some ord \<Rightarrow>
          if is_terminal ord then (False, s)
          else (True, s\<lparr>orders := (orders s)(oid \<mapsto> ord\<lparr>status := CANCELLED\<rparr>)\<rparr>))"

definition get_order :: "string \<Rightarrow> MockBroker \<Rightarrow> OrderResult option" where
  "get_order oid s = orders s oid"

text \<open>
  \<open>get_position\<close> and \<open>get_positions\<close> write the market data into the stored positions
  before returning them; \<open>if price:\<close> is false for \<open>None\<close> and for \<open>0.0\<close>.
\<close>

definition refresh :: "MockBroker \<Rightarrow> string \<Rightarrow> Position \<Rightarrow> Position" where
  "refresh s tkr p =
     (case get_current_price s tkr of
        None \<Rightarrow> p
      | Some price \<Rightarrow> if price \<noteq> 0 then update_market_data price p else p)"

definition get_position :: "string \<Rightarrow> MockBroker \<Rightarrow> Position option \<times> MockBroker" where
  "get_position tkr s =
     (case map_of (positions s) tkr of
        None \<Rightarrow> (None, s)
      | Some p \<Rightarrow>
          (let p1 = refresh s tkr p
           in (Some p1, s\<lparr>positions := AList.update tkr p1 (positions s)\<rparr>)))"

definition get_positions :: "MockBroker \<Rightarrow> (string \<times> Position) list \<times> MockBroker" where
  "get_positions s =
     (let ps = map (\<lambda>(tkr, p). (tkr, refresh s tkr p)) (positions s)
      in (ps, s\<lparr>positions := ps\<rparr>))"

text \<open>\<open>get_account\<close> sums the stored \<open>market_value\<close> fields; it refreshes nothing.\<close>

definition get_account :: "MockBroker \<Rightarrow> AccountInfo" where
  "get_account s =
     (let positions_value = sum_list (map (\<lambda>(tkr, p). market_value p) (positions s));
          equity = cash s + positions_value
      in \<lparr>account_id = ''mock-account'', a_cash = cash s,
          buying_power = cash s - margin_used s, equity = equity,
          a_margin_used = margin_used s, margin_available = cash s - margin_used s,
          day_trade_count = 0, is_paper = True\<rparr>)"

subsection \<open>mock.py: \<open>load_state\<close>\<close>








definition required :: "string \<Rightarrow> 'a option \<Rightarrow> error + 'a" where
  "required k v = (case v of None \<Rightarrow> Inl (KeyError k) | Some x \<Rightarrow> Inr x)"












subsection \<open>Double precision\<close>

text \<open>
  A Python \<open>float\<close> is an IEEE 754 binary64 number, and \<open>+\<close>, \<open>-\<close>, \<open>*\<close> and \<open>/\<close> on
  floats return the exact result rounded to the nearest binary64 number, ties to the
  even significand. \<open>fl\<close> is that rounding on the reals: \<open>ulp_exponent\<close> searches, from
  0, the exponent \<open>e\<close> with \<open>2^52 \<le> |x| / 2^e < 2^53\<close>, not below the exponent -1074
  of the subnormal numbers, and \<open>quantize\<close> rounds \<open>|x|\<close> to a multiple of \<open>2^e\<close>. The
  1100 steps of the search reach every exponent from -1074 to 971, those of the finite
  binary64 numbers. Results of magnitude \<open>2^1024\<close> and above, which are infinities in
  Python, are not modelled: \<open>finite_double x\<close> says that \<open>x\<close> is a binary64 number
  below that magnitude.
\<close>

definition pow2 :: "int \<Rightarrow> real" where
  "pow2 e = (if 0 \<le> e then 2 ^ nat e else 1 / 2 ^ nat (- e))"

definition round_half_even :: "real \<Rightarrow> int" where
  "round_half_even y =
     (let f = \<lfloor>y\<rfloor>
      in if y - real_of_int f < 1 / 2 then f
         else if 1 / 2 < y - real_of_int f then f + 1
         else if even f then f else f + 1)"

fun ulp_exponent :: "nat \<Rightarrow> real \<Rightarrow> int \<Rightarrow> int" where
  "ulp_exponent 0 y e = e"
| "ulp_exponent (Suc n) y e =
     (if 2 ^ 53 \<le> y / pow2 e then ulp_exponent n y (e + 1)
      else if y / pow2 e < 2 ^ 52 \<and> - 1074 < e then ulp_exponent n y (e - 1)
      else e)"

definition quantize :: "int \<Rightarrow> real \<Rightarrow> real" where
  "quantize e y = real_of_int (round_half_even (y / pow2 e)) * pow2 e"

definition fl :: "real \<Rightarrow> real" where
  "fl x = (if x = 0 then 0 else sgn x * quantize (ulp_exponent 1100 \<bar>x\<bar> 0) \<bar>x\<bar>)"

text \<open>An \<open>int\<close> operand of a float operation is converted to a float first.\<close>

definition float_of_int :: "int \<Rightarrow> real" where
  "float_of_int n = fl (real_of_int n)"

definition fadd :: "real \<Rightarrow> real \<Rightarrow> real" where
  "fadd x y = fl (x + y)"

definition fsub :: "real \<Rightarrow> real \<Rightarrow> real" where
  "fsub x y = fl (x - y)"

definition fmul :: "real \<Rightarrow> real \<Rightarrow> real" where
  "fmul x y = fl (x * y)"

definition fdiv :: "real \<Rightarrow> real \<Rightarrow> real" where
  "fdiv x y = fl (x / y)"


text \<open>
  \<open>_execute_long_buy\<close> again, line by line as \<open>execute_long_buy\<close> above, with each
  arithmetic operation on floats rounded. The comparisons and the arithmetic on
  \<open>int\<close> (\<open>new_qty = old_qty + quantity\<close>) are exact in Python too.
\<close>

definition execute_long_buy_fl ::
  "string \<Rightarrow> int \<Rightarrow> real \<Rightarrow> MockBroker \<Rightarrow> error + (int \<times> MockBroker)" where
  "execute_long_buy_fl tkr qty0 price s =
     (let cost0 = fmul (float_of_int qty0) price;
          clamped =
            (if cost0 > cash s
             then (let max_qty = (if price > 0 then py_int (fdiv (cash s) price) else 0)
                   in if max_qty = 0
                      then Inl (InsufficientFundsError (InsufficientCash tkr cost0 (cash s)))
                      else Inr (max_qty, fmul (float_of_int max_qty) price))
             else Inr (qty0, cost0))
      in case clamped of
           Inl e \<Rightarrow> Inl e
         | Inr (qty, cost) \<Rightarrow>
             (let (position, s1) = get_or_create_position tkr LONG s;
                  old_qty = p_quantity position;
                  old_cost = average_cost position;
                  new_qty = old_qty + qty;
                  position1 =
                    (if new_qty > 0
                     then position\<lparr>average_cost :=
                            fdiv (fadd (fmul old_cost (float_of_int old_qty))
                                       (fmul price (float_of_int qty)))
                                 (float_of_int new_qty)\<rparr>
                     else position);
                  position2 = position1\<lparr>p_quantity := new_qty\<rparr>;
                  s2 = s1\<lparr>positions := AList.update tkr position2 (positions s1)\<rparr>
              in Inr (qty, s2\<lparr>cash := fsub (cash s2) cost\<rparr>)))"

subsection \<open>Constructor calls with the dataclass defaults\<close>

definition market_order :: "string \<Rightarrow> OrderSide \<Rightarrow> int \<Rightarrow> PositionSide \<Rightarrow> string \<Rightarrow> Order" where
  "market_order tkr sd qty ps cid =
     \<lparr>ticker = tkr, side = sd, quantity = qty, order_type = MARKET, limit_price = None,
      stop_price = None, position_side = ps, client_order_id = cid, time_in_force = ''day''\<rparr>"

definition limit_order ::
  "string \<Rightarrow> OrderSide \<Rightarrow> int \<Rightarrow> real \<Rightarrow> PositionSide \<Rightarrow> string \<Rightarrow> Order" where
  "limit_order tkr sd qty limit ps cid =
     \<lparr>ticker = tkr, side = sd, quantity = qty, order_type = LIMIT, limit_price = Some limit,
      stop_price = None, position_side = ps, client_order_id = cid, time_in_force = ''day''\<rparr>"

subsection \<open>Scenarios\<close>

text \<open>
  The brokers that the concrete theorems below run on, each reached from a fresh
  broker by \<open>set_price\<close> and \<open>submit_order\<close> (by \<open>_execute_long_buy\<close> in double
  precision for the last three). The \<open>Inl\<close> branches are never taken.
\<close>

definition after_buy_500 :: MockBroker where
  "after_buy_500 =
     (case submit_order ''id1'' 0 (market_order ''X'' BUY 500 LONG ''c1'')
             (set_price ''X'' 100 (init 100000 (1/2) 0 (1/200) None)) of
        Inr (r, s) \<Rightarrow> s
      | Inl e \<Rightarrow> init 0 0 0 0 None)"

definition after_short_then_long :: MockBroker where
  "after_short_then_long =
     (case submit_order ''id1'' 0 (market_order ''X'' SELL 5 SHORT ''c1'')
             (set_price ''X'' 10 (init 1000 (1/2) 0 (1/200) None)) of
        Inl e \<Rightarrow> init 0 0 0 0 None
      | Inr (r1, s1) \<Rightarrow>
          (case submit_order ''id2'' 1 (market_order ''X'' BUY 5 LONG ''c2'') s1 of
             Inl e \<Rightarrow> init 0 0 0 0 None
           | Inr (r2, s2) \<Rightarrow> s2))"

definition after_partial_buy :: MockBroker where
  "after_partial_buy =
     (case submit_order ''id1'' 0 (market_order ''X'' BUY 500 LONG ''c1'')
             (set_price ''X'' 100 (init 10000 (1/2) 0 (1/200) None)) of
        Inr (r, s) \<Rightarrow> s
      | Inl e \<Rightarrow> init 0 0 0 0 None)"

definition after_short_loss :: MockBroker where
  "after_short_loss =
     (case submit_order ''id1'' 0 (market_order ''X'' SELL 100 SHORT ''c1'')
             (set_price ''X'' 10 (init 1000 (1/2) 0 (1/200) None)) of
        Inl e \<Rightarrow> init 0 0 0 0 None
      | Inr (r1, s1) \<Rightarrow>
          (case submit_order ''id2'' 1 (market_order ''X'' BUY 100 SHORT ''c2'')
                  (set_price ''X'' 100 s1) of
             Inl e \<Rightarrow> init 0 0 0 0 None
           | Inr (r2, s2) \<Rightarrow> set_price ''X'' 3 s2))"

definition after_negative_cash_buy :: MockBroker where
  "after_negative_cash_buy =
     (case submit_order ''id3'' 2 (market_order ''X'' BUY 1 LONG ''c3'') after_short_loss of
        Inr (r, s) \<Rightarrow> s
      | Inl e \<Rightarrow> init 0 0 0 0 None)"





text \<open>A long buy in double precision of 10 shares at the float \<open>1.05\<close> with a cash of
  the float \<open>6.3\<close>.\<close>

definition cash_r :: real where
  "cash_r = fl (63 / 10)"

definition price_r :: real where
  "price_r = fl (105 / 100)"

definition after_rounded_buy :: MockBroker where
  "after_rounded_buy =
     (case execute_long_buy_fl ''X'' 10 price_r (init cash_r (1/2) 0 (1/200) None) of
        Inr (q, s) \<Rightarrow> s
      | Inl e \<Rightarrow> init 0 0 0 0 None)"



section \<open>Properties\<close>

lemmas eval_defs = market_order_def limit_order_def init_def set_price_def submit_order_def
  get_current_price_def apply_slippage_def execute_and_record_def execute_order_def
  execute_long_buy_def execute_long_sell_def execute_short_open_def execute_short_cover_def
  get_or_create_position_def new_position_def py_int_def create_rejected_result_def
  create_filled_result_def create_partial_result_def create_pending_result_def get_order_def
  get_account_def get_positions_def refresh_def update_market_data_def Let_def

subsection \<open>\<open>submit_order\<close> and exceptions\<close>

text \<open>
  C1. The claim: \<open>submit_order\<close> never raises; every execution-time failure comes back
  as a REJECTED result. The code at a cached price of \<open>0\<close>: a market order reaches the
  max-slippage guard (\<open>max_slippage\<close> is \<open>0.005\<close> by default), which divides by the
  current price, and \<open>ZeroDivisionError\<close> leaves \<open>submit_order\<close>; only
  \<open>InsufficientFundsError\<close> is caught. \<open>_execute_long_buy\<close> guards the same division
  with \<open>if price > 0\<close>.
\<close>

theorem submit_order_zero_price_raises:
  "submit_order ''id1'' 0 (market_order ''X'' BUY 1 LONG ''c1'')
     (set_price ''X'' 0 (init 100000 (1/2) 0 (1/200) None)) = Inl ZeroDivisionError"
  by (simp add: eval_defs)

subsection \<open>The order map\<close>

text \<open>
  C2. The claim: every result that \<open>submit_order\<close> returns is stored in the order map
  under its broker order id, so that \<open>get_order\<close> finds it. The code with no price for
  the ticker: the REJECTED result is returned by an early \<open>return\<close>, before the store
  at the end of \<open>submit_order\<close>; the broker is unchanged and \<open>get_order\<close> on the id of
  the result is \<open>None\<close>. The PENDING result and the REJECTED result for a zero fill
  are stored.
\<close>

theorem early_rejection_not_stored:
  "submit_order ''id1'' 0 (market_order ''X'' BUY 1 LONG ''c1'') (init 100000 (1/2) 0 (1/200) None)
     = Inr (create_rejected_result ''id1'' 0 (market_order ''X'' BUY 1 LONG ''c1'')
              (NoPriceAvailable ''X''),
            init 100000 (1/2) 0 (1/200) None)
   \<and> order_id (create_rejected_result ''id1'' 0 (market_order ''X'' BUY 1 LONG ''c1'')
              (NoPriceAvailable ''X'')) = ''id1''
   \<and> get_order ''id1'' (init 100000 (1/2) 0 (1/200) None) = None"
  by (simp add: eval_defs)

subsection \<open>Account equity\<close>

text \<open>
  C4. The claim: immediately after any fill, the equity that \<open>get_account\<close> reports is
  cash plus the market values of the positions at the current prices. The code after
  a market BUY of 500 shares at 100 with 100000 of cash: the order is FILLED, cash is
  50000, and \<open>get_account\<close> reports an equity of 50000: it sums the stored
  \<open>market_value\<close> fields, which only \<open>get_position\<close> and \<open>get_positions\<close> refresh. Once
  \<open>get_positions\<close> has been called it reports 100000. \<open>get_performance_summary\<close>
  calls \<open>get_positions\<close> before it sums.
\<close>

theorem get_account_equity_stale_after_fill:
  "map_option status (get_order ''id1'' after_buy_500) = Some FILLED
   \<and> cash after_buy_500 = 50000
   \<and> equity (get_account after_buy_500) = 50000
   \<and> equity (get_account (snd (get_positions after_buy_500))) = 100000"
  by (simp add: after_buy_500_def eval_defs)

subsection \<open>Positions of quantity zero\<close>

text \<open>
  C5. The claim: a ticker is in the position map exactly when its quantity is not
  zero, also after a long buy on a ticker held short. The code after a short open of 5
  shares and a long buy of 5 shares of the same ticker, both FILLED:
  \<open>_get_or_create_position\<close> returns the short position whatever side is asked for,
  \<open>_execute_long_buy\<close> adds 5 to its quantity of -5 and has no removal, and the
  position stays in the map with quantity 0. \<open>_execute_long_sell\<close> and
  \<open>_execute_short_cover\<close> delete a position whose quantity reaches 0.
\<close>

theorem zero_quantity_position_kept:
  "map_option status (get_order ''id1'' after_short_then_long) = Some FILLED
   \<and> map_option status (get_order ''id2'' after_short_then_long) = Some FILLED
   \<and> map_option p_quantity (map_of (positions after_short_then_long) ''X'') = Some 0
   \<and> map_option p_side (map_of (positions after_short_then_long) ''X'') = Some SHORT
   \<and> cash after_short_then_long = 975"
  by (simp add: after_short_then_long_def eval_defs)

subsection \<open>\<open>cancel_order\<close>\<close>

lemma is_terminal_iff: "is_terminal r \<longleftrightarrow> status r \<notin> {PENDING, SUBMITTED, PARTIAL}"
  by (cases "status r") (simp_all add: is_terminal_def)

lemma cancel_order_cases:
  "cancel_order oid s =
     (case orders s oid of
        None \<Rightarrow> (False, s)
      | Some r \<Rightarrow>
          if status r \<in> {PENDING, SUBMITTED, PARTIAL}
          then (True, s\<lparr>orders := (orders s)(oid \<mapsto> r\<lparr>status := CANCELLED\<rparr>)\<rparr>)
          else (False, s))"
  by (simp add: cancel_order_def is_terminal_iff split: option.split)

lemma after_partial_buy_order:
  "orders after_partial_buy ''id1''
     = Some (create_partial_result ''id1'' 0 (market_order ''X'' BUY 500 LONG ''c1'') 100 100)"
  by (simp add: after_partial_buy_def eval_defs)

lemma after_partial_buy_ledger:
  "cash after_partial_buy = 0
   \<and> map_option p_quantity (map_of (positions after_partial_buy) ''X'') = Some 100"
  by (simp add: after_partial_buy_def eval_defs)

text \<open>
  C9. \<open>cancel_order\<close> on an id whose stored order is PENDING, SUBMITTED or PARTIAL
  returns true and leaves that order CANCELLED; on an unknown id, or on an order that
  is FILLED, CANCELLED, REJECTED or EXPIRED, it returns false and the broker is
  unchanged.
\<close>

theorem cancel_order_transitions:
  "(\<forall>r. orders s oid = Some r \<and> status r \<in> {PENDING, SUBMITTED, PARTIAL} \<longrightarrow>
        fst (cancel_order oid s) = True
        \<and> map_option status (get_order oid (snd (cancel_order oid s))) = Some CANCELLED)
   \<and> (orders s oid = None
        \<or> (\<exists>r. orders s oid = Some r \<and> status r \<in> {FILLED, CANCELLED, REJECTED, EXPIRED})
       \<longrightarrow> cancel_order oid s = (False, s))"
  by (auto simp: cancel_order_cases get_order_def)

text \<open>Both cases on the broker left by a partial fill: the PARTIAL order \<open>id1\<close> is
  cancelled, the unknown id is refused.\<close>

theorem cancel_order_transitions_witness:
  "fst (cancel_order ''id1'' after_partial_buy) = True
   \<and> map_option status (get_order ''id1'' (snd (cancel_order ''id1'' after_partial_buy)))
        = Some CANCELLED
   \<and> cancel_order ''nope'' after_partial_buy = (False, after_partial_buy)"
proof -
  have st: "status (create_partial_result ''id1'' 0 (market_order ''X'' BUY 500 LONG ''c1'') 100 100)
      \<in> {PENDING, SUBMITTED, PARTIAL}"
    by (simp add: create_partial_result_def)
  have n: "orders after_partial_buy ''nope'' = None"
    by (simp add: after_partial_buy_def eval_defs)
  from cancel_order_transitions [of after_partial_buy "''id1''"] after_partial_buy_order st
  have a: "fst (cancel_order ''id1'' after_partial_buy) = True
     \<and> map_option status (get_order ''id1'' (snd (cancel_order ''id1'' after_partial_buy)))
        = Some CANCELLED" by blast
  from cancel_order_transitions [of after_partial_buy "''nope''"] n
  have b: "cancel_order ''nope'' after_partial_buy = (False, after_partial_buy)" by blast
  from a b show ?thesis by simp
qed

text \<open>
  C10. A successful \<open>cancel_order\<close> changes the status field of the targeted order and
  nothing else: cash, margin in use, the positions, the price cache, the settings and
  every other stored order are as before. So the cash spent and the shares bought by
  the fill of a PARTIAL order stay after the order is cancelled.
\<close>

theorem cancel_order_frame:
  assumes "cancel_order oid s = (True, s')"
  shows "initial_cash s' = initial_cash s \<and> cash s' = cash s
         \<and> margin_requirement s' = margin_requirement s \<and> margin_used s' = margin_used s
         \<and> slippage s' = slippage s \<and> max_slippage s' = max_slippage s
         \<and> price_provider s' = price_provider s
         \<and> positions s' = positions s \<and> prices s' = prices s
         \<and> (\<forall>k. k \<noteq> oid \<longrightarrow> orders s' k = orders s k)
         \<and> (\<exists>r. orders s oid = Some r \<and> orders s' oid = Some (r\<lparr>status := CANCELLED\<rparr>))"
  using assms by (auto simp: cancel_order_cases split: option.splits if_splits)

text \<open>The PARTIAL order of \<open>after_partial_buy\<close> filled 100 of 500 shares with all of the
  cash; after its cancellation cash is still 0 and the 100 shares are still held.\<close>

theorem cancel_order_frame_witness:
  "cancel_order ''id1'' after_partial_buy
     = (True, after_partial_buy\<lparr>orders := (orders after_partial_buy)(''id1'' \<mapsto>
          (create_partial_result ''id1'' 0 (market_order ''X'' BUY 500 LONG ''c1'') 100 100)
             \<lparr>status := CANCELLED\<rparr>)\<rparr>)
   \<and> cash (snd (cancel_order ''id1'' after_partial_buy)) = 0
   \<and> map_option p_quantity (map_of (positions (snd (cancel_order ''id1'' after_partial_buy))) ''X'')
       = Some 100"
proof -
  have c: "cancel_order ''id1'' after_partial_buy
     = (True, after_partial_buy\<lparr>orders := (orders after_partial_buy)(''id1'' \<mapsto>
          (create_partial_result ''id1'' 0 (market_order ''X'' BUY 500 LONG ''c1'') 100 100)
             \<lparr>status := CANCELLED\<rparr>)\<rparr>)"
    by (simp add: cancel_order_cases after_partial_buy_order create_partial_result_def)
  from cancel_order_frame [OF c] after_partial_buy_ledger c show ?thesis by simp
qed

subsection \<open>\<open>load_state\<close>\<close>




subsection \<open>Evaluating double precision\<close>

lemma ulp_exponent_step:
  "0 < n \<Longrightarrow> ulp_exponent n y e =
     (if 2 ^ 53 \<le> y / pow2 e then ulp_exponent (n - 1) y (e + 1)
      else if y / pow2 e < 2 ^ 52 \<and> - 1074 < e then ulp_exponent (n - 1) y (e - 1)
      else e)"
  by (cases n) simp_all

lemmas fl_eval = fl_def ulp_exponent_step pow2_def quantize_def round_half_even_def
  float_of_int_def fadd_def fsub_def fmul_def fdiv_def Let_def

lemma fl_0 [simp]: "fl 0 = 0"
  by (simp add: fl_def)

lemma fmul_0 [simp]: "fmul 0 y = 0"
  by (simp add: fmul_def)

subsection \<open>The long buy\<close>

text \<open>
  C6. The claim: a long buy at a price \<open>p > 0\<close> whose cost exceeds the cash \<open>c\<close> fills
  \<open>floor(c/p)\<close> shares, never leaves cash negative, and is rejected when the clamp is
  zero. The code with negative cash, which covering a short at a loss produces: after
  a short of 100 shares at 10 covered at 100 the cash is -3500. A long buy of 1 share
  at 3 then has \<open>max_qty = int(-3500/3) = -1166\<close>, which passes the test
  \<open>max_qty == 0\<close>: the buy fills -1166 shares (\<open>floor(-3500/3)\<close> is -1167),
  \<open>submit_order\<close> reports a PARTIAL fill of -1166 shares, and cash is -2.
  \<open>_execute_long_sell\<close> and \<open>_execute_short_cover\<close> return 0 on \<open>quantity <= 0\<close>.
  Binary64 arithmetic gives the same numbers: only the quotient \<open>-3500/3\<close> is
  rounded, and its truncation is -1166 all the same.
\<close>

theorem long_buy_negative_cash_counterexample:
  "(0::real) < 3 \<and> real_of_int 1 * 3 > cash after_short_loss
   \<and> \<lfloor>cash after_short_loss / 3\<rfloor> = - 1167
   \<and> map_sum id fst (execute_long_buy ''X'' 1 3 after_short_loss) = Inr (- 1166)
   \<and> map_option status (get_order ''id3'' after_negative_cash_buy) = Some PARTIAL
   \<and> map_option quantity_filled (get_order ''id3'' after_negative_cash_buy) = Some (- 1166)
   \<and> cash after_negative_cash_buy = - 2"
  by (simp add: after_negative_cash_buy_def after_short_loss_def eval_defs)

text \<open>
  With cash that is not negative the rounding of the quotient does the same: with a
  cash of 6.3 and a price of 1.05, \<open>floor(c/p)\<close> is 5, the float \<open>6.3 / 1.05\<close> is 6.0,
  and \<open>_execute_long_buy\<close> in double precision fills 6 shares and leaves a cash of
  \<open>-2^-50\<close>.
\<close>

lemma rounded_prices:
  "cash_r = 7093169413108531 / 1125899906842624"
  "price_r = 4728779608739021 / 4503599627370496"
  by (simp_all add: cash_r_def price_r_def fl_eval)

lemma rounded_buy_table:
  "float_of_int 10 = 10" "float_of_int 6 = 6"
  "fmul 10 (4728779608739021 / 4503599627370496) = 21 / 2"
  "fdiv (7093169413108531 / 1125899906842624) (4728779608739021 / 4503599627370496) = 6"
  "fmul 6 (4728779608739021 / 4503599627370496) = 1773292353277133 / 281474976710656"
  "fmul (4728779608739021 / 4503599627370496) 6 = 1773292353277133 / 281474976710656"
  "fadd 0 (1773292353277133 / 281474976710656) = 1773292353277133 / 281474976710656"
  "fdiv (1773292353277133 / 281474976710656) 6 = 4728779608739021 / 4503599627370496"
  "fsub (7093169413108531 / 1125899906842624) (1773292353277133 / 281474976710656)
     = - (1 / 1125899906842624)"
  by (simp_all add: fl_eval)

lemma long_buy_rounding_negative_cash:
  "0 \<le> cash (init cash_r (1/2) 0 (1/200) None)
   \<and> (0::real) < price_r
   \<and> real_of_int 10 * price_r > cash (init cash_r (1/2) 0 (1/200) None)
   \<and> \<lfloor>cash (init cash_r (1/2) 0 (1/200) None) / price_r\<rfloor> = 5
   \<and> execute_long_buy_fl ''X'' 10 price_r (init cash_r (1/2) 0 (1/200) None)
       = Inr (6, after_rounded_buy)
   \<and> cash after_rounded_buy = - (1 / 1125899906842624)"
proof -
  have e: "execute_long_buy_fl ''X'' 10 price_r (init cash_r (1/2) 0 (1/200) None)
      = Inr (6, (init cash_r (1/2) 0 (1/200) None)
                  \<lparr>positions := [(''X'', new_position ''X'' 6 LONG price_r)],
                   cash := - (1 / 1125899906842624)\<rparr>)"
    by (simp add: rounded_prices execute_long_buy_fl_def get_or_create_position_def
        new_position_def init_def py_int_def Let_def rounded_buy_table)
  then have a: "after_rounded_buy = (init cash_r (1/2) 0 (1/200) None)
                  \<lparr>positions := [(''X'', new_position ''X'' 6 LONG price_r)],
                   cash := - (1 / 1125899906842624)\<rparr>"
    by (simp add: after_rounded_buy_def)
  have c: "cash (init cash_r (1/2) 0 (1/200) None) = 7093169413108531 / 1125899906842624"
    by (simp add: init_def rounded_prices)
  have k: "cash after_rounded_buy = - (1 / 1125899906842624)"
    by (simp add: a)
  have 1: "execute_long_buy_fl ''X'' 10 price_r (init cash_r (1/2) 0 (1/200) None)
       = Inr (6, after_rounded_buy)"
    by (simp only: a e)
  have f: "\<lfloor>(7093169413108531 / 1125899906842624 :: real) / price_r\<rfloor> = 5"
    "(0::real) < price_r" "real_of_int 10 * price_r > 7093169413108531 / 1125899906842624"
    by (simp_all add: rounded_prices)
  show ?thesis
    unfolding c using 1 k f by simp
qed

subsection \<open>Average cost\<close>

















subsection \<open>Limit orders\<close>

lemma get_current_price_slippage [simp]:
  "get_current_price (s\<lparr>slippage := x\<rparr>) tkr = get_current_price s tkr"
  by (simp add: get_current_price_def split: option.splits)

lemma execute_long_buy_slippage:
  "execute_long_buy t q p (s\<lparr>slippage := x\<rparr>)
     = map_sum id (\<lambda>(n, s'). (n, s'\<lparr>slippage := x\<rparr>)) (execute_long_buy t q p s)"
  by (simp add: execute_long_buy_def get_or_create_position_def Let_def split: option.splits)

lemma execute_long_sell_slippage:
  "execute_long_sell t q p (s\<lparr>slippage := x\<rparr>)
     = map_sum id (\<lambda>(n, s'). (n, s'\<lparr>slippage := x\<rparr>)) (execute_long_sell t q p s)"
  by (simp add: execute_long_sell_def Let_def split: option.splits)

lemma execute_short_open_slippage:
  "execute_short_open t q p (s\<lparr>slippage := x\<rparr>)
     = map_sum id (\<lambda>(n, s'). (n, s'\<lparr>slippage := x\<rparr>)) (execute_short_open t q p s)"
  by (simp add: execute_short_open_def get_or_create_position_def Let_def split: option.splits)

lemma execute_short_cover_slippage:
  "execute_short_cover t q p (s\<lparr>slippage := x\<rparr>)
     = map_sum id (\<lambda>(n, s'). (n, s'\<lparr>slippage := x\<rparr>)) (execute_short_cover t q p s)"
  by (simp add: execute_short_cover_def Let_def split: option.splits)

lemma execute_order_slippage:
  "execute_order ord p (s\<lparr>slippage := x\<rparr>)
     = map_sum id (\<lambda>(n, s'). (n, s'\<lparr>slippage := x\<rparr>)) (execute_order ord p s)"
  by (simp add: execute_order_def execute_long_buy_slippage execute_long_sell_slippage
      execute_short_open_slippage execute_short_cover_slippage)

lemma execute_and_record_slippage:
  "execute_and_record oid now ord p (s\<lparr>slippage := x\<rparr>)
     = map_sum id (\<lambda>(r, s'). (r, s'\<lparr>slippage := x\<rparr>)) (execute_and_record oid now ord p s)"
  by (cases "execute_order ord p s")
     (auto simp: execute_and_record_def execute_order_slippage Let_def split: error.splits)

lemma execute_and_record_result:
  assumes "execute_and_record oid now ord p s = Inr (r, s')"
  shows "status r \<in> {REJECTED, PARTIAL, FILLED}"
    and "status r = FILLED \<or> status r = PARTIAL \<Longrightarrow> average_price r = Some p"
  using assms
  by (auto simp: execute_and_record_def Let_def create_rejected_result_def
      create_partial_result_def create_filled_result_def
      split: sum.splits error.splits prod.splits if_splits)

text \<open>
  C8. For a limit order with its limit price, on a ticker that has a current price:
  a buy while the current price is above the limit, and a sell while it is below,
  returns a PENDING result with zero filled quantity, stored in the order map under
  its id, the rest of the broker unchanged. Otherwise the order is executed at the
  limit price: \<open>submit_order\<close> is the execution at that price, a result is never
  PENDING, a FILLED or PARTIAL result has the limit price as its average price, and
  the outcome is the same under every slippage setting.
\<close>

theorem limit_order_pending_or_at_limit:
  assumes "order_type ord = LIMIT" and "limit_price ord = Some limit"
    and "get_current_price s (ticker ord) = Some current"
  shows "((side ord = BUY \<and> current > limit) \<or> (side ord = SELL \<and> current < limit) \<longrightarrow>
            (\<exists>r. submit_order oid now ord s = Inr (r, s\<lparr>orders := (orders s)(oid \<mapsto> r)\<rparr>)
                 \<and> order_id r = oid \<and> status r = PENDING \<and> quantity_filled r = 0))
       \<and> (\<not> ((side ord = BUY \<and> current > limit) \<or> (side ord = SELL \<and> current < limit)) \<longrightarrow>
            submit_order oid now ord s = execute_and_record oid now ord limit s
            \<and> (\<forall>r s'. submit_order oid now ord s = Inr (r, s') \<longrightarrow>
                  status r \<noteq> PENDING
                  \<and> (status r = FILLED \<or> status r = PARTIAL \<longrightarrow> average_price r = Some limit))
            \<and> (\<forall>x. submit_order oid now ord (s\<lparr>slippage := x\<rparr>)
                  = map_sum id (\<lambda>(r, s'). (r, s'\<lparr>slippage := x\<rparr>)) (submit_order oid now ord s)))"
proof -
  have pend: "(side ord = BUY \<and> current > limit) \<or> (side ord = SELL \<and> current < limit) \<Longrightarrow>
            (\<exists>r. submit_order oid now ord s = Inr (r, s\<lparr>orders := (orders s)(oid \<mapsto> r)\<rparr>)
                 \<and> order_id r = oid \<and> status r = PENDING \<and> quantity_filled r = 0)"
    using assms by (auto simp: submit_order_def create_pending_result_def Let_def)
  have ex: "\<And>x. \<not> ((side ord = BUY \<and> current > limit) \<or> (side ord = SELL \<and> current < limit)) \<Longrightarrow>
            submit_order oid now ord (s\<lparr>slippage := x\<rparr>)
              = execute_and_record oid now ord limit (s\<lparr>slippage := x\<rparr>)"
    using assms by (auto simp: submit_order_def)
  have ex0: "\<not> ((side ord = BUY \<and> current > limit) \<or> (side ord = SELL \<and> current < limit)) \<Longrightarrow>
            submit_order oid now ord s = execute_and_record oid now ord limit s"
    using assms by (auto simp: submit_order_def)
  show ?thesis
    using pend ex ex0 execute_and_record_result [of oid now ord limit s]
    by (auto simp: execute_and_record_slippage)
qed

text \<open>With a current price of 100 and a slippage of 1 percent: a buy limit at 90 is PENDING
  and stored; a buy limit at 110 is FILLED at 110, for 1100 of the 100000 of cash.\<close>

theorem limit_order_pending_or_at_limit_witness:
  "(\<exists>r. submit_order ''id1'' 0 (limit_order ''X'' BUY 10 90 LONG ''c1'')
           (set_price ''X'' 100 (init 100000 (1/2) (1/100) (1/200) None))
         = Inr (r, (set_price ''X'' 100 (init 100000 (1/2) (1/100) (1/200) None))
                     \<lparr>orders := (orders (set_price ''X'' 100
                                  (init 100000 (1/2) (1/100) (1/200) None)))(''id1'' \<mapsto> r)\<rparr>)
         \<and> status r = PENDING \<and> quantity_filled r = 0)
   \<and> map_sum id (\<lambda>(r, s). (status r, quantity_filled r, average_price r, cash s))
       (submit_order ''id2'' 0 (limit_order ''X'' BUY 10 110 LONG ''c2'')
          (set_price ''X'' 100 (init 100000 (1/2) (1/100) (1/200) None)))
       = Inr (FILLED, 10, Some 110, 98900)"
proof -
  let ?s = "set_price ''X'' 100 (init 100000 (1/2) (1/100) (1/200) None)"
  let ?a = "limit_order ''X'' BUY 10 90 LONG ''c1''"
  let ?b = "limit_order ''X'' BUY 10 110 LONG ''c2''"
  have a: "order_type ?a = LIMIT" "limit_price ?a = Some 90"
      "get_current_price ?s (ticker ?a) = Some 100"
    and pa: "side ?a = BUY \<and> (100::real) > 90"
    by (simp_all add: limit_order_def set_price_def init_def get_current_price_def)
  have b: "order_type ?b = LIMIT" "limit_price ?b = Some 110"
      "get_current_price ?s (ticker ?b) = Some 100"
    and pb: "\<not> ((side ?b = BUY \<and> (100::real) > 110) \<or> (side ?b = SELL \<and> (100::real) < 110))"
    by (simp_all add: limit_order_def set_price_def init_def get_current_price_def)
  from limit_order_pending_or_at_limit [OF a, of "''id1''" 0] pa
  have 1: "\<exists>r. submit_order ''id1'' 0 ?a ?s = Inr (r, ?s\<lparr>orders := (orders ?s)(''id1'' \<mapsto> r)\<rparr>)
         \<and> status r = PENDING \<and> quantity_filled r = 0"
    by blast
  from limit_order_pending_or_at_limit [OF b, of "''id2''" 0] pb
  have 2: "submit_order ''id2'' 0 ?b ?s = execute_and_record ''id2'' 0 ?b 110 ?s"
    by blast
  have 3: "map_sum id (\<lambda>(r, s). (status r, quantity_filled r, average_price r, cash s))
       (execute_and_record ''id2'' 0 ?b 110 ?s) = Inr (FILLED, 10, Some 110, 98900)"
    by (simp add: eval_defs)
  from 1 2 3 show ?thesis by simp
qed

end
